theory Spec2Isabelle
  imports Main
begin

section \<open>Values of the host language\<close>

text \<open>
  A thrown or rejected JavaScript error object: the name of its class, its message and
  the error it wraps, if any.  \<^verbatim>\<open>new Error(m)\<close> is \<open>JsError ''Error'' m None\<close>.
\<close>

datatype js_error =
  JsError (err_name: string) (err_message: string) (err_cause: "js_error option")

text \<open>Bound parameter values and row cells are opaque to the driver.\<close>

datatype js_value = JsNull | JsBoolean bool | JsNumber int | JsString string

type_synonym row = "(string \<times> js_value) list"

text \<open>
  The settled state of a promise, and the completion of a synchronous evaluation:
  a \<^verbatim>\<open>try\<close> block only intercepts \<open>Throw\<close>.
\<close>

datatype 'a promise = Fulfilled 'a | Rejected js_error

datatype 'a completion = Normal 'a | Throw js_error

text \<open>
  An awaited promise inside an \<^verbatim>\<open>async\<close> method: \<open>Inl\<close> is the rejection
  that leaves the method, \<open>Inr\<close> the value the method continues with.
\<close>

fun await :: "'a promise \<Rightarrow> js_error + 'a" where
  "await (Fulfilled v) = Inr v"
| "await (Rejected e) = Inl e"

section \<open>The objects of \<^verbatim>\<open>postgres-driver.ts\<close>\<close>

text \<open>A \<^verbatim>\<open>PoolClient\<close> of the backend library is known by its object identity only.\<close>

type_synonym pool_client = nat

text \<open>
  \<^verbatim>\<open>class PostgresConnection\<close>: the object's own identity (\<open>conn_ref\<close>, given by
  the allocator when \<^verbatim>\<open>new\<close> runs) and its private field \<^verbatim>\<open>#client\<close>.
\<close>

record postgres_connection =
  conn_ref :: nat
  client :: pool_client

text \<open>\<^verbatim>\<open>CompiledQuery\<close>, as far as the driver reads it.\<close>

record compiled_query =
  sql :: string
  bindings :: "js_value list"

text \<open>
  What \<^verbatim>\<open>client.query\<close> of the backend library resolves with, as far as the
  driver reads it (\<^verbatim>\<open>result.command\<close>, \<^verbatim>\<open>result.rowCount\<close>, \<^verbatim>\<open>result.rows\<close>).
\<close>

record pg_query_result =
  pg_command :: string
  pg_rowCount :: int
  pg_rows :: "row list"

text \<open>
  \<^verbatim>\<open>QueryResult\<close>.  A field that holds \<^verbatim>\<open>undefined\<close> is \<open>None\<close>.  The flag
  \<open>frozen\<close> is the object's own state: an object literal starts unfrozen.
\<close>

record query_result =
  numUpdatedOrDeletedRows :: "int option"
  insertedPrimaryKey :: "js_value option"
  rows :: "row list"
  frozen :: bool

text \<open>
  The configuration the driver reads through \<^verbatim>\<open>this.config\<close>.  The creation hook
  is given by what it does with the wrapper it receives: \<open>None\<close> when its promise is
  fulfilled, \<open>Some e\<close> when it throws or rejects with \<open>e\<close>.
\<close>

record pool_config =
  connectionTimeoutMillis :: nat
  idleTimeoutMillis :: nat
  maxConnections :: nat
  onCreateConnection :: "(postgres_connection \<Rightarrow> js_error option) option"

record driver_config =
  host :: string
  database :: string
  port :: nat
  user :: string
  password :: string
  cfg_pool :: pool_config

text \<open>
  A \<^verbatim>\<open>pg.Pool\<close> object: its identity and the options literal it was constructed
  with (\<^verbatim>\<open>host, database, port, user, password, connectionTimeoutMillis,
  idleTimeoutMillis, max\<close>).
\<close>

record pg_pool =
  pool_ref :: nat
  opt_host :: string
  opt_database :: string
  opt_port :: nat
  opt_user :: string
  opt_password :: string
  opt_connectionTimeoutMillis :: nat
  opt_idleTimeoutMillis :: nat
  opt_max :: nat

section \<open>The driver and its environment\<close>

text \<open>
  The two private fields of \<^verbatim>\<open>PostgresDriver\<close> (\<^verbatim>\<open>#pool\<close>, \<^verbatim>\<open>#connections\<close>),
  the allocator of object identities, and the trace of every call the driver makes
  into its environment: pools constructed, pools ended, handles obtained from
  \<^verbatim>\<open>pool.connect()\<close>, wrappers constructed, hook invocations, queries sent,
  clients released.

  The \<^verbatim>\<open>WeakMap\<close> is a finite map keyed by handle identity.  An entry of a
  \<^verbatim>\<open>WeakMap\<close> disappears only once its key is unreachable, after which the pool
  cannot hand that key out again, so no lookup can tell the difference.
\<close>

record world =
  pool :: "pg_pool option"
  connections :: "pool_client \<rightharpoonup> postgres_connection"
  next_ref :: nat
  pools_created :: "pg_pool list"
  pools_ended :: "nat list"
  clients_obtained :: "pool_client list"
  connections_created :: "postgres_connection list"
  hook_calls :: "postgres_connection list"
  queries_sent :: "(pool_client \<times> string \<times> js_value list) list"
  clients_released :: "pool_client list"

text \<open>A freshly constructed driver: \<^verbatim>\<open>#pool = null\<close>, an empty \<^verbatim>\<open>WeakMap\<close>.\<close>

definition new_driver :: world where
  "new_driver =
     \<lparr>pool = None, connections = Map.empty, next_ref = 0, pools_created = [],
      pools_ended = [], clients_obtained = [], connections_created = [],
      hook_calls = [], queries_sent = [], clients_released = []\<rparr>"

definition getDefaultPort :: nat where
  "getDefaultPort = 5432"

section \<open>\<^verbatim>\<open>PostgresConnection.executeQuery\<close>\<close>

text \<open>
  The array literal \<^verbatim>\<open>[...xs]\<close>: the elements of \<open>xs\<close> are visited in iteration
  order and each is appended to the array under construction.
\<close>

fun spread_into :: "'a list \<Rightarrow> 'a list \<Rightarrow> 'a list" where
  "spread_into acc [] = acc"
| "spread_into acc (x # xs) = spread_into (acc @ [x]) xs"

definition spread :: "'a list \<Rightarrow> 'a list" where
  "spread xs = spread_into [] xs"

text \<open>
  Modelled from the spec: \<^verbatim>\<open>freeze\<close> of \<^verbatim>\<open>util/object-utils\<close> is imported by the
  driver and its source is missing.  The spec says that the result object is
  immutable once returned; the helper is taken to put the object it is given into
  the frozen state and to return it.
\<close>

definition freeze :: "query_result \<Rightarrow> query_result" where
  "freeze obj = obj\<lparr>frozen := True\<rparr>"

text \<open>
  Modelled from the spec: what a holder of a \<^verbatim>\<open>QueryResult\<close> can try on it, under
  the frozen state \<^verbatim>\<open>freeze\<close> is taken to give.  A write to a field of a frozen
  object throws a \<^verbatim>\<open>TypeError\<close> (module code is strict) and leaves the object as
  it was; on an unfrozen object the write goes through.
\<close>

datatype field_write =
  SetNumUpdatedOrDeletedRows "int option"
| SetInsertedPrimaryKey "js_value option"
| SetRows "row list"

definition frozen_write_error :: js_error where
  "frozen_write_error =
     JsError ''TypeError'' ''Cannot assign to read only property of object'' None"

fun write_field :: "field_write \<Rightarrow> query_result \<Rightarrow> js_error + query_result" where
  "write_field wr obj =
     (if frozen obj then Inl frozen_write_error
      else Inr (case wr of
             SetNumUpdatedOrDeletedRows v \<Rightarrow> obj\<lparr>numUpdatedOrDeletedRows := v\<rparr>
           | SetInsertedPrimaryKey v \<Rightarrow> obj\<lparr>insertedPrimaryKey := v\<rparr>
           | SetRows v \<Rightarrow> obj\<lparr>rows := v\<rparr>))"

text \<open>The object a sequence of attempted writes leaves behind; a failed write changes nothing.\<close>

fun writes_applied :: "field_write list \<Rightarrow> query_result \<Rightarrow> query_result" where
  "writes_applied [] obj = obj"
| "writes_applied (wr # wrs) obj =
     (case write_field wr obj of
        Inl e \<Rightarrow> writes_applied wrs obj
      | Inr obj' \<Rightarrow> writes_applied wrs obj')"

text \<open>
  \<^verbatim>\<open>executeQuery(compiledQuery)\<close>.  \<open>reply\<close> is how the promise of
  \<^verbatim>\<open>this.#client.query(sql, [...bindings])\<close> settles.  The call is recorded in
  \<open>queries_sent\<close>; a rejection leaves the method as it is, since the body has no
  \<^verbatim>\<open>try\<close>.
\<close>

definition executeQuery ::
  "pg_query_result promise \<Rightarrow> postgres_connection \<Rightarrow> compiled_query \<Rightarrow> world
     \<Rightarrow> (js_error + query_result) \<times> world" where
  "executeQuery reply this compiledQuery w =
     (let w' = w\<lparr>queries_sent :=
                   queries_sent w @ [(client this, sql compiledQuery, spread (bindings compiledQuery))]\<rparr>
      in case await reply of
           Inl e \<Rightarrow> (Inl e, w')
         | Inr result \<Rightarrow>
             (Inr (freeze
                \<lparr>numUpdatedOrDeletedRows =
                   (if pg_command result = ''UPDATE'' \<or> pg_command result = ''DELETE''
                    then Some (pg_rowCount result) else None),
                 insertedPrimaryKey = None,
                 rows = pg_rows result,
                 frozen = False\<rparr>), w'))"

section \<open>\<^verbatim>\<open>importPg\<close> and \<^verbatim>\<open>PostgresDriver\<close>\<close>

text \<open>
  Whether the module \<^verbatim>\<open>pg\<close> can be resolved when the driver is initialised, and
  the error of the module loader when it cannot.
\<close>

datatype pg_resolution = PgResolved | PgUnresolved js_error

datatype pg_module = PgModule

text \<open>
  The expression \<^verbatim>\<open>import('pg')\<close>.  A dynamic import always completes normally
  with a promise; a module that cannot be resolved is a rejection of that promise,
  not a synchronous throw.
\<close>

definition dynamic_import :: "pg_resolution \<Rightarrow> pg_module promise completion" where
  "dynamic_import res =
     Normal (case res of PgResolved \<Rightarrow> Fulfilled PgModule | PgUnresolved e \<Rightarrow> Rejected e)"

definition missing_pg_error :: js_error where
  "missing_pg_error =
     JsError ''Error'' ''Postgres client not installed. Please run `npm install pg`'' None"

text \<open>
  \<^verbatim>\<open>async function importPg()\<close>.  The \<^verbatim>\<open>try\<close> block returns the promise of the
  import without awaiting it: the block completes normally with that promise, and
  the promise of \<^verbatim>\<open>importPg\<close> then takes the state of the returned one.  The
  \<^verbatim>\<open>catch\<close> clause runs only when the evaluation of the block throws.
\<close>

definition importPg :: "pg_resolution \<Rightarrow> pg_module promise" where
  "importPg res =
     (case dynamic_import res of
        Normal p \<Rightarrow> p
      | Throw error \<Rightarrow> Rejected missing_pg_error)"

text \<open>
  \<^verbatim>\<open>initImpl()\<close>: awaits \<^verbatim>\<open>importPg()\<close>, then constructs a pool from the
  configuration and stores it in \<^verbatim>\<open>#pool\<close>.  There is no test of the present
  value of \<^verbatim>\<open>#pool\<close>.
\<close>

definition initImpl ::
  "driver_config \<Rightarrow> pg_resolution \<Rightarrow> world \<Rightarrow> (js_error + unit) \<times> world" where
  "initImpl cfg res w =
     (case await (importPg res) of
        Inl e \<Rightarrow> (Inl e, w)
      | Inr pg \<Rightarrow>
          (let p = \<lparr>pool_ref = next_ref w,
                    opt_host = host cfg,
                    opt_database = database cfg,
                    opt_port = port cfg,
                    opt_user = user cfg,
                    opt_password = password cfg,
                    opt_connectionTimeoutMillis = connectionTimeoutMillis (cfg_pool cfg),
                    opt_idleTimeoutMillis = idleTimeoutMillis (cfg_pool cfg),
                    opt_max = maxConnections (cfg_pool cfg)\<rparr>
           in (Inr (), w\<lparr>pool := Some p,
                          next_ref := Suc (next_ref w),
                          pools_created := pools_created w @ [p]\<rparr>)))"

text \<open>
  \<^verbatim>\<open>destroyImpl()\<close>.  \<open>end_reply\<close> is how the promise of \<^verbatim>\<open>pool.end()\<close>
  settles.  The field is cleared before the call is awaited.
\<close>

definition destroyImpl :: "unit promise \<Rightarrow> world \<Rightarrow> (js_error + unit) \<times> world" where
  "destroyImpl end_reply w =
     (case pool w of
        None \<Rightarrow> (Inr (), w)
      | Some p \<Rightarrow>
          (let w' = w\<lparr>pool := None, pools_ended := pools_ended w @ [pool_ref p]\<rparr>
           in case await end_reply of
                Inl e \<Rightarrow> (Inl e, w')
              | Inr u \<Rightarrow> (Inr (), w')))"

text \<open>
  The \<^verbatim>\<open>TypeError\<close> of the member access \<^verbatim>\<open>this.#pool!.connect\<close> when the field
  holds \<^verbatim>\<open>null\<close>; the non-null assertion is erased by the compiler.
\<close>

definition null_pool_error :: js_error where
  "null_pool_error =
     JsError ''TypeError'' ''Cannot read properties of null (reading connect)'' None"

text \<open>
  \<^verbatim>\<open>acquireConnectionImpl()\<close>.  \<open>connect_reply\<close> is how the promise of
  \<^verbatim>\<open>pool.connect()\<close> settles.  On a cache miss the wrapper is constructed and
  stored first, then the hook, when there is one, is called and awaited.
\<close>

definition acquireConnectionImpl ::
  "driver_config \<Rightarrow> pool_client promise \<Rightarrow> world
     \<Rightarrow> (js_error + postgres_connection) \<times> world" where
  "acquireConnectionImpl cfg connect_reply w =
     (case pool w of
        None \<Rightarrow> (Inl null_pool_error, w)
      | Some p \<Rightarrow>
          (case await connect_reply of
             Inl e \<Rightarrow> (Inl e, w)
           | Inr c \<Rightarrow>
               (let w0 = w\<lparr>clients_obtained := clients_obtained w @ [c]\<rparr>
                in case connections w0 c of
                     Some connection \<Rightarrow> (Inr connection, w0)
                   | None \<Rightarrow>
                       (let connection = \<lparr>conn_ref = next_ref w0, client = c\<rparr>;
                            w1 = w0\<lparr>next_ref := Suc (next_ref w0),
                                    connections_created := connections_created w0 @ [connection],
                                    connections := (connections w0)(c \<mapsto> connection)\<rparr>
                        in case onCreateConnection (cfg_pool cfg) of
                             None \<Rightarrow> (Inr connection, w1)
                           | Some hook \<Rightarrow>
                               (let w2 = w1\<lparr>hook_calls := hook_calls w1 @ [connection]\<rparr>
                                in case hook connection of
                                     Some e \<Rightarrow> (Inl e, w2)
                                   | None \<Rightarrow> (Inr connection, w2))))))"

text \<open>
  \<^verbatim>\<open>releaseConnectionImpl(connection)\<close>: calls the wrapper's private release
  method, which calls \<^verbatim>\<open>this.#client.release()\<close>.  \<open>release_reply\<close> is how that
  synchronous call completes.
\<close>

definition releaseConnectionImpl ::
  "postgres_connection \<Rightarrow> unit completion \<Rightarrow> world \<Rightarrow> (js_error + unit) \<times> world" where
  "releaseConnectionImpl connection release_reply w =
     (let w' = w\<lparr>clients_released := clients_released w @ [client connection]\<rparr>
      in case release_reply of
           Throw e \<Rightarrow> (Inl e, w')
         | Normal u \<Rightarrow> (Inr (), w'))"

section \<open>Histories of calls\<close>

text \<open>
  One call on the driver or on a wrapper, together with what the environment answers
  to the single backend call it makes.  A history runs its calls one after another.
  The pool gives a handle to one holder at a time, and \<open>acquireConnectionImpl\<close> reads
  and writes the cache without an \<^verbatim>\<open>await\<close> in between, so calls that overlap in
  time see the cache as some history of this kind leaves it.
\<close>

datatype event =
  is_Init: Init pg_resolution
| Destroy "unit promise"
| Acquire "pool_client promise"
| Release postgres_connection "unit completion"
| Execute postgres_connection compiled_query "pg_query_result promise"

datatype reply =
  Failed js_error
| Done
| Connection postgres_connection
| Result query_result

fun step :: "driver_config \<Rightarrow> event \<Rightarrow> world \<Rightarrow> reply \<times> world" where
  "step cfg (Init res) w =
     (case initImpl cfg res w of
        (Inl e, w') \<Rightarrow> (Failed e, w') | (Inr u, w') \<Rightarrow> (Done, w'))"
| "step cfg (Destroy end_reply) w =
     (case destroyImpl end_reply w of
        (Inl e, w') \<Rightarrow> (Failed e, w') | (Inr u, w') \<Rightarrow> (Done, w'))"
| "step cfg (Acquire connect_reply) w =
     (case acquireConnectionImpl cfg connect_reply w of
        (Inl e, w') \<Rightarrow> (Failed e, w') | (Inr k, w') \<Rightarrow> (Connection k, w'))"
| "step cfg (Release k release_reply) w =
     (case releaseConnectionImpl k release_reply w of
        (Inl e, w') \<Rightarrow> (Failed e, w') | (Inr u, w') \<Rightarrow> (Done, w'))"
| "step cfg (Execute k q query_reply) w =
     (case executeQuery query_reply k q w of
        (Inl e, w') \<Rightarrow> (Failed e, w') | (Inr r, w') \<Rightarrow> (Result r, w'))"

fun run :: "driver_config \<Rightarrow> event list \<Rightarrow> world \<Rightarrow> reply list \<times> world" where
  "run cfg [] w = ([], w)"
| "run cfg (ev # evs) w =
     (case step cfg ev w of
        (r, w1) \<Rightarrow> (case run cfg evs w1 of (rs, w2) \<Rightarrow> (r # rs, w2)))"

text \<open>The wrappers of the handle \<open>c\<close> in a trace of wrappers.\<close>

definition of_client :: "pool_client \<Rightarrow> postgres_connection list \<Rightarrow> postgres_connection list" where
  "of_client c ks = filter (\<lambda>k. client k = c) ks"

section \<open>Example configurations\<close>

text \<open>A configuration without a creation hook, and one with the hook \<open>hook\<close>.\<close>

abbreviation (input) example_config :: driver_config where
  "example_config \<equiv>
     \<lparr>host = ''localhost'', database = ''app'', port = 5432, user = ''kysely'',
      password = ''secret'',
      cfg_pool = \<lparr>connectionTimeoutMillis = 1000, idleTimeoutMillis = 1000,
                  maxConnections = 1, onCreateConnection = None\<rparr>\<rparr>"

abbreviation (input) example_config_with :: "(postgres_connection \<Rightarrow> js_error option) \<Rightarrow> driver_config" where
  "example_config_with hook \<equiv>
     \<lparr>host = ''localhost'', database = ''app'', port = 5432, user = ''kysely'',
      password = ''secret'',
      cfg_pool = \<lparr>connectionTimeoutMillis = 1000, idleTimeoutMillis = 1000,
                  maxConnections = 1, onCreateConnection = Some hook\<rparr>\<rparr>"

section \<open>Array spread\<close>

lemma spread_into_append: "spread_into acc xs = acc @ xs"
  by (induction xs arbitrary: acc) simp_all

lemma spread_id: "spread xs = xs"
  by (simp add: spread_def spread_into_append)

section \<open>Single calls\<close>

lemma acquire_no_pool:
  "pool w = None \<Longrightarrow> acquireConnectionImpl cfg connect_reply w = (Inl null_pool_error, w)"
  by (simp add: acquireConnectionImpl_def)

lemma acquire_cached:
  "pool w = Some p \<Longrightarrow> connections w c = Some k \<Longrightarrow>
   acquireConnectionImpl cfg (Fulfilled c) w =
     (Inr k, w\<lparr>clients_obtained := clients_obtained w @ [c]\<rparr>)"
  by (simp add: acquireConnectionImpl_def)

lemma acquire_fresh:
  "pool w = Some p \<Longrightarrow> connections w c = None \<Longrightarrow>
   acquireConnectionImpl cfg (Fulfilled c) w =
     (case onCreateConnection (cfg_pool cfg) of
        None \<Rightarrow> Inr \<lparr>conn_ref = next_ref w, client = c\<rparr>
      | Some hook \<Rightarrow>
          (case hook \<lparr>conn_ref = next_ref w, client = c\<rparr> of
             Some e \<Rightarrow> Inl e
           | None \<Rightarrow> Inr \<lparr>conn_ref = next_ref w, client = c\<rparr>),
      w\<lparr>clients_obtained := clients_obtained w @ [c],
        next_ref := Suc (next_ref w),
        connections_created := connections_created w @ [\<lparr>conn_ref = next_ref w, client = c\<rparr>],
        connections := (connections w)(c \<mapsto> \<lparr>conn_ref = next_ref w, client = c\<rparr>),
        hook_calls := hook_calls w @
          (case onCreateConnection (cfg_pool cfg) of
             None \<Rightarrow> [] | Some hook \<Rightarrow> [\<lparr>conn_ref = next_ref w, client = c\<rparr>])\<rparr>)"
  by (simp add: acquireConnectionImpl_def Let_def split: option.splits)

section \<open>Histories\<close>

lemma snd_run_Cons: "snd (run cfg (ev # evs) w) = snd (run cfg evs (snd (step cfg ev w)))"
  by (cases "step cfg ev w"; cases "run cfg evs (snd (step cfg ev w))") simp

lemma step_keeps_cache:
  "connections w c = Some k \<Longrightarrow> connections (snd (step cfg ev w)) c = Some k"
  by (cases ev)
     (auto simp: initImpl_def destroyImpl_def acquireConnectionImpl_def
        releaseConnectionImpl_def executeQuery_def Let_def
        split: sum.splits option.splits completion.splits prod.splits)

lemma step_keeps_of_client:
  "connections w c = Some k \<Longrightarrow>
   of_client c (hook_calls (snd (step cfg ev w))) = of_client c (hook_calls w)
   \<and> of_client c (connections_created (snd (step cfg ev w))) = of_client c (connections_created w)"
  by (cases ev)
     (auto simp: initImpl_def destroyImpl_def acquireConnectionImpl_def of_client_def
        releaseConnectionImpl_def executeQuery_def Let_def
        split: sum.splits option.splits completion.splits prod.splits)

lemma run_keeps_cache:
  "connections w c = Some k \<Longrightarrow> connections (snd (run cfg evs w)) c = Some k"
proof (induction evs arbitrary: w)
  case Nil
  then show ?case by simp
next
  case (Cons ev evs)
  have "connections (snd (step cfg ev w)) c = Some k"
    using Cons.prems by (rule step_keeps_cache)
  from Cons.IH [OF this] show ?case
    by (simp only: snd_run_Cons)
qed

lemma run_keeps_of_client:
  "connections w c = Some k \<Longrightarrow>
   of_client c (hook_calls (snd (run cfg evs w))) = of_client c (hook_calls w)
   \<and> of_client c (connections_created (snd (run cfg evs w))) = of_client c (connections_created w)"
proof (induction evs arbitrary: w)
  case Nil
  then show ?case by simp
next
  case (Cons ev evs)
  have 1: "connections (snd (step cfg ev w)) c = Some k"
    using Cons.prems by (rule step_keeps_cache)
  from Cons.IH [OF 1] step_keeps_of_client [OF Cons.prems, of cfg ev] show ?case
    by (simp only: snd_run_Cons)
qed

text \<open>
  Only handles that the pool has handed out are cached, were wrapped or were given to
  the hook.
\<close>

lemma step_obtained:
  "dom (connections w) \<subseteq> set (clients_obtained w)
   \<and> client ` set (hook_calls w) \<subseteq> set (clients_obtained w)
   \<and> client ` set (connections_created w) \<subseteq> set (clients_obtained w) \<Longrightarrow>
   dom (connections (snd (step cfg ev w))) \<subseteq> set (clients_obtained (snd (step cfg ev w)))
   \<and> client ` set (hook_calls (snd (step cfg ev w))) \<subseteq> set (clients_obtained (snd (step cfg ev w)))
   \<and> client ` set (connections_created (snd (step cfg ev w)))
        \<subseteq> set (clients_obtained (snd (step cfg ev w)))"
  by (cases ev)
     (auto simp: initImpl_def destroyImpl_def acquireConnectionImpl_def
        releaseConnectionImpl_def executeQuery_def Let_def
        split: sum.splits option.splits completion.splits prod.splits)

lemma run_obtained:
  "dom (connections w) \<subseteq> set (clients_obtained w)
   \<and> client ` set (hook_calls w) \<subseteq> set (clients_obtained w)
   \<and> client ` set (connections_created w) \<subseteq> set (clients_obtained w) \<Longrightarrow>
   dom (connections (snd (run cfg evs w))) \<subseteq> set (clients_obtained (snd (run cfg evs w)))
   \<and> client ` set (hook_calls (snd (run cfg evs w))) \<subseteq> set (clients_obtained (snd (run cfg evs w)))
   \<and> client ` set (connections_created (snd (run cfg evs w)))
        \<subseteq> set (clients_obtained (snd (run cfg evs w)))"
proof (induction evs arbitrary: w)
  case Nil
  then show ?case by simp
next
  case (Cons ev evs)
  from Cons.IH [OF step_obtained [OF Cons.prems]] show ?case
    by (simp only: snd_run_Cons)
qed

lemma unobtained_from_new:
  assumes "c \<notin> set (clients_obtained (snd (run cfg evs new_driver)))"
  shows "connections (snd (run cfg evs new_driver)) c = None"
    and "of_client c (hook_calls (snd (run cfg evs new_driver))) = []"
    and "of_client c (connections_created (snd (run cfg evs new_driver))) = []"
proof -
  let ?w = "snd (run cfg evs new_driver)"
  have inv: "dom (connections ?w) \<subseteq> set (clients_obtained ?w)
      \<and> client ` set (hook_calls ?w) \<subseteq> set (clients_obtained ?w)
      \<and> client ` set (connections_created ?w) \<subseteq> set (clients_obtained ?w)"
    by (rule run_obtained) (simp add: new_driver_def)
  from inv assms show "connections ?w c = None"
    by (auto simp: domIff)
  from inv assms show "of_client c (hook_calls ?w) = []"
    by (auto simp: of_client_def filter_empty_conv)
  from inv assms show "of_client c (connections_created ?w) = []"
    by (auto simp: of_client_def filter_empty_conv)
qed

text \<open>Without a call of \<open>initImpl\<close> an empty pool field stays empty.\<close>

lemma step_keeps_null_pool:
  "pool w = None \<Longrightarrow> \<not> is_Init ev \<Longrightarrow> pool (snd (step cfg ev w)) = None"
  by (cases ev)
     (auto simp: destroyImpl_def acquireConnectionImpl_def
        releaseConnectionImpl_def executeQuery_def Let_def
        split: sum.splits option.splits completion.splits prod.splits)

lemma run_keeps_null_pool:
  "pool w = None \<Longrightarrow> \<forall>ev\<in>set evs. \<not> is_Init ev \<Longrightarrow> pool (snd (run cfg evs w)) = None"
proof (induction evs arbitrary: w)
  case Nil
  then show ?case by simp
next
  case (Cons ev evs)
  have "pool (snd (step cfg ev w)) = None"
    using Cons.prems by (simp add: step_keeps_null_pool)
  from Cons.IH [OF this] Cons.prems(2) show ?case
    by (simp only: snd_run_Cons) simp
qed

lemma destroy_clears_pool: "pool (snd (destroyImpl end_reply w)) = None"
  by (cases end_reply) (simp_all add: destroyImpl_def Let_def split: option.splits)

lemma destroy_null_pool: "pool w = None \<Longrightarrow> destroyImpl end_reply w = (Inr (), w)"
  by (simp add: destroyImpl_def)

lemma init_resolved:
  "initImpl cfg PgResolved w =
     (Inr (), w\<lparr>pool := Some \<lparr>pool_ref = next_ref w,
                    opt_host = host cfg,
                    opt_database = database cfg,
                    opt_port = port cfg,
                    opt_user = user cfg,
                    opt_password = password cfg,
                    opt_connectionTimeoutMillis = connectionTimeoutMillis (cfg_pool cfg),
                    opt_idleTimeoutMillis = idleTimeoutMillis (cfg_pool cfg),
                    opt_max = maxConnections (cfg_pool cfg)\<rparr>,
                 next_ref := Suc (next_ref w),
                 pools_created := pools_created w @ [\<lparr>pool_ref = next_ref w,
                    opt_host = host cfg,
                    opt_database = database cfg,
                    opt_port = port cfg,
                    opt_user = user cfg,
                    opt_password = password cfg,
                    opt_connectionTimeoutMillis = connectionTimeoutMillis (cfg_pool cfg),
                    opt_idleTimeoutMillis = idleTimeoutMillis (cfg_pool cfg),
                    opt_max = maxConnections (cfg_pool cfg)\<rparr>]\<rparr>)"
  by (simp add: initImpl_def importPg_def dynamic_import_def Let_def)

lemma writes_applied_frozen: "frozen obj \<Longrightarrow> writes_applied wrs obj = obj"
  by (induction wrs) simp_all

lemmas eval_defs = new_driver_def initImpl_def importPg_def dynamic_import_def destroyImpl_def
  acquireConnectionImpl_def releaseConnectionImpl_def executeQuery_def freeze_def spread_def
  of_client_def null_pool_error_def missing_pg_error_def Let_def


lemma later_acquisition:
  assumes cache: "connections w2 c = Some k"
    and init: "pool (snd (run cfg evs w2)) \<noteq> None"
  shows "acquireConnectionImpl cfg (Fulfilled c) (snd (run cfg evs w2)) =
           (Inr k, (snd (run cfg evs w2))
              \<lparr>clients_obtained := clients_obtained (snd (run cfg evs w2)) @ [c]\<rparr>)"
    and "of_client c (hook_calls (snd (run cfg evs w2))) = of_client c (hook_calls w2)"
    and "of_client c (connections_created (snd (run cfg evs w2))) =
           of_client c (connections_created w2)"
proof -
  from init obtain p where p: "pool (snd (run cfg evs w2)) = Some p" by auto
  have "connections (snd (run cfg evs w2)) c = Some k"
    using cache by (rule run_keeps_cache)
  with p show "acquireConnectionImpl cfg (Fulfilled c) (snd (run cfg evs w2)) =
           (Inr k, (snd (run cfg evs w2))
              \<lparr>clients_obtained := clients_obtained (snd (run cfg evs w2)) @ [c]\<rparr>)"
    by (rule acquire_cached)
  from run_keeps_of_client [OF cache, of cfg evs]
  show "of_client c (hook_calls (snd (run cfg evs w2))) = of_client c (hook_calls w2)"
    and "of_client c (connections_created (snd (run cfg evs w2))) =
           of_client c (connections_created w2)"
    by simp_all
qed

section \<open>The identity cache\<close>

text \<open>
  C1.  Take any history of calls on a new driver after which the pool has not yet handed
  out the handle \<open>c\<close>, an acquisition that obtains \<open>c\<close> (the first one), any further
  calls, and a later acquisition that obtains \<open>c\<close> again.  The first acquisition
  constructs one wrapper \<open>k\<close> and, when a hook is configured, calls the hook on \<open>k\<close>
  once and returns \<open>k\<close> only when the hook has finished without error.  The later
  acquisition returns that same object \<open>k\<close>, constructs nothing and calls no hook: over
  the whole history exactly one wrapper was constructed for \<open>c\<close>, and the hook ran
  once for \<open>c\<close> when there is a hook and never otherwise.
\<close>

theorem acquire_same_wrapper_hook_once:
  fixes cfg evs1 c evs2
  defines "w1 \<equiv> snd (run cfg evs1 new_driver)"
  defines "k \<equiv> \<lparr>conn_ref = next_ref w1, client = c\<rparr>"
  defines "r1 \<equiv> fst (acquireConnectionImpl cfg (Fulfilled c) w1)"
  defines "w2 \<equiv> snd (acquireConnectionImpl cfg (Fulfilled c) w1)"
  defines "w3 \<equiv> snd (run cfg evs2 w2)"
  defines "r2 \<equiv> fst (acquireConnectionImpl cfg (Fulfilled c) w3)"
  defines "w4 \<equiv> snd (acquireConnectionImpl cfg (Fulfilled c) w3)"
  assumes first: "c \<notin> set (clients_obtained w1)"
    and init1: "pool w1 \<noteq> None"
    and init3: "pool w3 \<noteq> None"
  shows "of_client c (connections_created w1) = []
     \<and> of_client c (hook_calls w1) = []
     \<and> connections_created w2 = connections_created w1 @ [k]
     \<and> hook_calls w2 =
         hook_calls w1 @ (case onCreateConnection (cfg_pool cfg) of None \<Rightarrow> [] | Some hook \<Rightarrow> [k])
     \<and> r1 = (case onCreateConnection (cfg_pool cfg) of
               None \<Rightarrow> Inr k
             | Some hook \<Rightarrow> (case hook k of None \<Rightarrow> Inr k | Some e \<Rightarrow> Inl e))
     \<and> r2 = Inr k
     \<and> of_client c (connections_created w4) = [k]
     \<and> hook_calls w4 = hook_calls w3
     \<and> of_client c (hook_calls w4) =
         (case onCreateConnection (cfg_pool cfg) of None \<Rightarrow> [] | Some hook \<Rightarrow> [k])"
proof -
  from first have miss: "connections w1 c = None"
    and no_hook: "of_client c (hook_calls w1) = []"
    and no_wrapper: "of_client c (connections_created w1) = []"
    unfolding w1_def by (rule unobtained_from_new)+
  from init1 obtain p1 where p1: "pool w1 = Some p1" by auto
  note a1 = acquire_fresh [OF p1 miss, of cfg, folded k_def]
  have r1: "r1 = (case onCreateConnection (cfg_pool cfg) of
               None \<Rightarrow> Inr k
             | Some hook \<Rightarrow> (case hook k of None \<Rightarrow> Inr k | Some e \<Rightarrow> Inl e))"
    unfolding r1_def a1 by simp
  have created2: "connections_created w2 = connections_created w1 @ [k]"
    unfolding w2_def a1 by simp
  have hook2: "hook_calls w2 =
      hook_calls w1 @ (case onCreateConnection (cfg_pool cfg) of None \<Rightarrow> [] | Some hook \<Rightarrow> [k])"
    unfolding w2_def a1 by simp
  have cache2: "connections w2 c = Some k"
    unfolding w2_def a1 by simp
  have client_k: "client k = c"
    by (simp add: k_def)
  note a2 = later_acquisition [OF cache2 init3 [unfolded w3_def], folded w3_def]
  have r2: "r2 = Inr k"
    unfolding r2_def a2(1) by simp
  have hook4: "hook_calls w4 = hook_calls w3"
    unfolding w4_def a2(1) by simp
  have created4: "connections_created w4 = connections_created w3"
    unfolding w4_def a2(1) by simp
  have once_created: "of_client c (connections_created w4) = [k]"
    unfolding created4 a2(3) created2 using no_wrapper client_k by (simp add: of_client_def)
  have once_hook: "of_client c (hook_calls w4) =
      (case onCreateConnection (cfg_pool cfg) of None \<Rightarrow> [] | Some hook \<Rightarrow> [k])"
    unfolding hook4 a2(2) hook2 using no_hook client_k
    by (simp add: of_client_def split: option.splits)
  from no_wrapper no_hook created2 hook2 r1 r2 once_created hook4 once_hook
  show ?thesis by blast
qed

text \<open>
  An instance: initialise, acquire handle 7, release it, acquire handle 7 again, with a
  hook that succeeds.
\<close>

theorem acquire_same_wrapper_hook_once_witness:
  "7 \<notin> set (clients_obtained (snd (run (example_config_with (\<lambda>k. None)) [Init PgResolved] new_driver)))
   \<and> pool (snd (run (example_config_with (\<lambda>k. None)) [Init PgResolved] new_driver)) \<noteq> None
   \<and> pool (snd (run (example_config_with (\<lambda>k. None))
              [Release \<lparr>conn_ref = 1, client = 7\<rparr> (Normal ())]
              (snd (acquireConnectionImpl (example_config_with (\<lambda>k. None)) (Fulfilled 7)
                 (snd (run (example_config_with (\<lambda>k. None)) [Init PgResolved] new_driver)))))) \<noteq> None
   \<and> fst (acquireConnectionImpl (example_config_with (\<lambda>k. None)) (Fulfilled 7)
           (snd (run (example_config_with (\<lambda>k. None))
              [Release \<lparr>conn_ref = 1, client = 7\<rparr> (Normal ())]
              (snd (acquireConnectionImpl (example_config_with (\<lambda>k. None)) (Fulfilled 7)
                 (snd (run (example_config_with (\<lambda>k. None)) [Init PgResolved] new_driver)))))))
       = Inr \<lparr>conn_ref = 1, client = 7\<rparr>
   \<and> of_client 7 (hook_calls (snd (acquireConnectionImpl (example_config_with (\<lambda>k. None)) (Fulfilled 7)
           (snd (run (example_config_with (\<lambda>k. None))
              [Release \<lparr>conn_ref = 1, client = 7\<rparr> (Normal ())]
              (snd (acquireConnectionImpl (example_config_with (\<lambda>k. None)) (Fulfilled 7)
                 (snd (run (example_config_with (\<lambda>k. None)) [Init PgResolved] new_driver)))))))))
       = [\<lparr>conn_ref = 1, client = 7\<rparr>]"
proof -
  let ?cfg = "example_config_with (\<lambda>k. None)"
  let ?w1 = "snd (run ?cfg [Init PgResolved] new_driver)"
  let ?w3 = "snd (run ?cfg [Release \<lparr>conn_ref = 1, client = 7\<rparr> (Normal ())]
                (snd (acquireConnectionImpl ?cfg (Fulfilled 7) ?w1)))"
  have h1: "7 \<notin> set (clients_obtained ?w1)"
    by (simp add: eval_defs)
  have h2: "pool ?w1 \<noteq> None"
    by (simp add: eval_defs)
  have h3: "pool ?w3 \<noteq> None"
    by (simp add: eval_defs)
  from acquire_same_wrapper_hook_once [OF h1 h2 h3] h1 h2 h3 show ?thesis
    by (simp add: eval_defs)
qed

text \<open>
  C10.  When the creation hook throws during the first acquisition of the handle \<open>c\<close>,
  that acquisition fails with the hook's error, and the wrapper \<open>k\<close> it constructed is
  already in the cache.  After any further calls, a later acquisition that obtains \<open>c\<close>
  returns \<open>k\<close> and calls no hook: the hook ran once for \<open>c\<close>, and its failure is not
  retried.
\<close>

theorem hook_failure_not_retried:
  fixes cfg evs1 c evs2 hook e
  defines "w1 \<equiv> snd (run cfg evs1 new_driver)"
  defines "k \<equiv> \<lparr>conn_ref = next_ref w1, client = c\<rparr>"
  defines "r1 \<equiv> fst (acquireConnectionImpl cfg (Fulfilled c) w1)"
  defines "w2 \<equiv> snd (acquireConnectionImpl cfg (Fulfilled c) w1)"
  defines "w3 \<equiv> snd (run cfg evs2 w2)"
  defines "r2 \<equiv> fst (acquireConnectionImpl cfg (Fulfilled c) w3)"
  defines "w4 \<equiv> snd (acquireConnectionImpl cfg (Fulfilled c) w3)"
  assumes first: "c \<notin> set (clients_obtained w1)"
    and init1: "pool w1 \<noteq> None"
    and hook: "onCreateConnection (cfg_pool cfg) = Some hook"
    and throws: "hook k = Some e"
    and init3: "pool w3 \<noteq> None"
  shows "r1 = Inl e
     \<and> connections w2 c = Some k
     \<and> hook_calls w2 = hook_calls w1 @ [k]
     \<and> r2 = Inr k
     \<and> hook_calls w4 = hook_calls w3
     \<and> of_client c (hook_calls w4) = [k]"
proof -
  from first have miss: "connections w1 c = None"
    and no_hook: "of_client c (hook_calls w1) = []"
    unfolding w1_def by (rule unobtained_from_new)+
  from init1 obtain p1 where p1: "pool w1 = Some p1" by auto
  note a1 = acquire_fresh [OF p1 miss, of cfg, folded k_def]
  have r1: "r1 = Inl e"
    unfolding r1_def a1 by (simp add: hook throws)
  have cache2: "connections w2 c = Some k"
    unfolding w2_def a1 by simp
  have hook2: "hook_calls w2 = hook_calls w1 @ [k]"
    unfolding w2_def a1 by (simp add: hook)
  have client_k: "client k = c"
    by (simp add: k_def)
  note a2 = later_acquisition [OF cache2 init3 [unfolded w3_def], folded w3_def]
  have r2: "r2 = Inr k"
    unfolding r2_def a2(1) by simp
  have hook4: "hook_calls w4 = hook_calls w3"
    unfolding w4_def a2(1) by simp
  have once: "of_client c (hook_calls w4) = [k]"
    unfolding hook4 a2(2) hook2 using no_hook client_k by (simp add: of_client_def)
  from r1 cache2 hook2 r2 hook4 once show ?thesis by blast
qed

text \<open>
  An instance: initialise, acquire handle 7 with a hook that throws, acquire handle 7
  again.
\<close>

theorem hook_failure_not_retried_witness:
  "7 \<notin> set (clients_obtained
       (snd (run (example_config_with (\<lambda>k. Some (JsError ''Error'' ''hook failed'' None)))
               [Init PgResolved] new_driver)))
   \<and> pool (snd (run (example_config_with (\<lambda>k. Some (JsError ''Error'' ''hook failed'' None)))
               [Init PgResolved] new_driver)) \<noteq> None
   \<and> onCreateConnection
         (cfg_pool (example_config_with (\<lambda>k. Some (JsError ''Error'' ''hook failed'' None))))
       = Some (\<lambda>k. Some (JsError ''Error'' ''hook failed'' None))
   \<and> fst (acquireConnectionImpl
            (example_config_with (\<lambda>k. Some (JsError ''Error'' ''hook failed'' None)))
            (Fulfilled 7)
            (snd (run (example_config_with (\<lambda>k. Some (JsError ''Error'' ''hook failed'' None)))
                    [Init PgResolved] new_driver)))
       = Inl (JsError ''Error'' ''hook failed'' None)
   \<and> fst (acquireConnectionImpl
            (example_config_with (\<lambda>k. Some (JsError ''Error'' ''hook failed'' None)))
            (Fulfilled 7)
            (snd (run (example_config_with (\<lambda>k. Some (JsError ''Error'' ''hook failed'' None))) []
               (snd (acquireConnectionImpl
                  (example_config_with (\<lambda>k. Some (JsError ''Error'' ''hook failed'' None)))
                  (Fulfilled 7)
                  (snd (run (example_config_with (\<lambda>k. Some (JsError ''Error'' ''hook failed'' None)))
                          [Init PgResolved] new_driver)))))))
       = Inr \<lparr>conn_ref = 1, client = 7\<rparr>
   \<and> of_client 7 (hook_calls (snd (acquireConnectionImpl
            (example_config_with (\<lambda>k. Some (JsError ''Error'' ''hook failed'' None)))
            (Fulfilled 7)
            (snd (run (example_config_with (\<lambda>k. Some (JsError ''Error'' ''hook failed'' None))) []
               (snd (acquireConnectionImpl
                  (example_config_with (\<lambda>k. Some (JsError ''Error'' ''hook failed'' None)))
                  (Fulfilled 7)
                  (snd (run (example_config_with (\<lambda>k. Some (JsError ''Error'' ''hook failed'' None)))
                          [Init PgResolved] new_driver)))))))))
       = [\<lparr>conn_ref = 1, client = 7\<rparr>]"
proof -
  let ?h = "\<lambda>k::postgres_connection. Some (JsError ''Error'' ''hook failed'' None)"
  let ?cfg = "example_config_with ?h"
  let ?w1 = "snd (run ?cfg [Init PgResolved] new_driver)"
  let ?w3 = "snd (run ?cfg [] (snd (acquireConnectionImpl ?cfg (Fulfilled 7) ?w1)))"
  have h1: "7 \<notin> set (clients_obtained ?w1)"
    by (simp add: eval_defs)
  have h2: "pool ?w1 \<noteq> None"
    by (simp add: eval_defs)
  have h3: "onCreateConnection (cfg_pool ?cfg) = Some ?h"
    by simp
  have h4: "?h \<lparr>conn_ref = next_ref ?w1, client = 7\<rparr> = Some (JsError ''Error'' ''hook failed'' None)"
    by simp
  have h5: "pool ?w3 \<noteq> None"
    by (simp add: eval_defs)
  from hook_failure_not_retried [OF h1 h2 h3 h4 h5] h1 h2 h3 show ?thesis
    by (simp add: eval_defs)
qed

section \<open>The lifecycle\<close>

text \<open>
  C6.  As long as \<open>initImpl\<close> has not been called, \<open>destroyImpl\<close> on a driver that was
  never initialised returns without error and changes nothing.  After a first
  \<open>destroyImpl\<close>, however \<^verbatim>\<open>pool.end()\<close> settled, and any calls other than \<open>initImpl\<close>,
  a second \<open>destroyImpl\<close> returns without error and changes nothing either; in
  particular \<^verbatim>\<open>pool.end()\<close> is not called again.
\<close>

theorem destroy_without_pool_is_noop:
  assumes no_init: "list_all (\<lambda>ev. \<not> is_Init ev) evs"
  shows "destroyImpl end_reply (snd (run cfg evs new_driver)) =
           (Inr (), snd (run cfg evs new_driver))
     \<and> destroyImpl end_reply (snd (run cfg evs (snd (destroyImpl first_reply w)))) =
           (Inr (), snd (run cfg evs (snd (destroyImpl first_reply w))))
     \<and> pools_ended (snd (destroyImpl end_reply (snd (run cfg evs (snd (destroyImpl first_reply w)))))) =
           pools_ended (snd (run cfg evs (snd (destroyImpl first_reply w))))"
proof -
  from no_init have no_init: "\<forall>ev\<in>set evs. \<not> is_Init ev"
    by (simp add: list_all_iff)
  have "pool new_driver = None"
    by (simp add: new_driver_def)
  then have "pool (snd (run cfg evs new_driver)) = None"
    using no_init by (rule run_keeps_null_pool)
  then have never: "destroyImpl end_reply (snd (run cfg evs new_driver)) =
           (Inr (), snd (run cfg evs new_driver))"
    by (rule destroy_null_pool)
  have "pool (snd (run cfg evs (snd (destroyImpl first_reply w)))) = None"
    using destroy_clears_pool no_init by (rule run_keeps_null_pool)
  then have again: "destroyImpl end_reply (snd (run cfg evs (snd (destroyImpl first_reply w)))) =
           (Inr (), snd (run cfg evs (snd (destroyImpl first_reply w))))"
    by (rule destroy_null_pool)
  from never again show ?thesis by simp
qed

text \<open>
  An instance: a destroy after a failed acquisition on a new driver, and a second destroy
  after initialise, destroy and a failed acquisition; the one pool was ended once.
\<close>

theorem destroy_without_pool_is_noop_witness:
  "list_all (\<lambda>ev. \<not> is_Init ev) [Acquire (Fulfilled 3)]
   \<and> fst (destroyImpl (Fulfilled ()) (snd (run example_config [Acquire (Fulfilled 3)] new_driver)))
       = Inr ()
   \<and> pools_ended (snd (destroyImpl (Fulfilled ()) (snd (run example_config [Acquire (Fulfilled 3)] new_driver))))
       = []
   \<and> fst (destroyImpl (Fulfilled ())
       (snd (run example_config [Acquire (Fulfilled 3)]
          (snd (destroyImpl (Fulfilled ()) (snd (initImpl example_config PgResolved new_driver)))))))
       = Inr ()
   \<and> pools_ended (snd (destroyImpl (Fulfilled ())
       (snd (run example_config [Acquire (Fulfilled 3)]
          (snd (destroyImpl (Fulfilled ()) (snd (initImpl example_config PgResolved new_driver))))))))
       = [0]"
proof -
  have h: "list_all (\<lambda>ev. \<not> is_Init ev) [Acquire (Fulfilled 3)]"
    by simp
  from destroy_without_pool_is_noop [OF h, of "Fulfilled ()" example_config "Fulfilled ()"
      "snd (initImpl example_config PgResolved new_driver)"] h
  show ?thesis
    by (simp add: eval_defs)
qed

text \<open>
  Two calls of \<open>initImpl\<close> in a row on a new driver: the second one succeeds, and two
  pools have been constructed.
\<close>

theorem second_init_counterexample:
  "fst (initImpl example_config PgResolved (snd (initImpl example_config PgResolved new_driver)))
     = Inr ()
   \<and> map pool_ref (pools_created
        (snd (initImpl example_config PgResolved (snd (initImpl example_config PgResolved new_driver)))))
     = [0, 1]"
  by (simp add: init_resolved new_driver_def)

text \<open>
  C7, as the code has it.  \<open>initImpl\<close> does not look at the state of the driver.  A
  second call after a successful one succeeds again: it constructs a second pool,
  distinct from the first, and stores it in the pool field in place of the first, which
  is not ended.
\<close>

theorem second_init_creates_second_pool:
  fixes cfg w
  defines "w1 \<equiv> snd (initImpl cfg PgResolved w)"
  defines "w2 \<equiv> snd (initImpl cfg PgResolved w1)"
  shows "fst (initImpl cfg PgResolved w) = Inr ()
     \<and> fst (initImpl cfg PgResolved w1) = Inr ()
     \<and> (\<exists>p1 p2. pool w1 = Some p1 \<and> pool w2 = Some p2 \<and> pool_ref p1 \<noteq> pool_ref p2
           \<and> pools_created w2 = pools_created w @ [p1, p2])
     \<and> pools_ended w2 = pools_ended w"
  unfolding w2_def w1_def by (simp add: init_resolved)

text \<open>
  An acquisition right after initialise and destroy fails with the \<^verbatim>\<open>TypeError\<close> of the
  null pool field; after initialise, destroy and initialise again it succeeds.
\<close>

theorem acquire_after_destroy_counterexample:
  "fst (acquireConnectionImpl example_config (Fulfilled 7)
          (snd (destroyImpl (Fulfilled ()) (snd (initImpl example_config PgResolved new_driver)))))
     = Inl (JsError ''TypeError'' ''Cannot read properties of null (reading connect)'' None)
   \<and> fst (acquireConnectionImpl example_config (Fulfilled 7)
          (snd (initImpl example_config PgResolved
             (snd (destroyImpl (Fulfilled ()) (snd (initImpl example_config PgResolved new_driver)))))))
     = Inr \<lparr>conn_ref = 2, client = 7\<rparr>"
  by (simp add: eval_defs)

text \<open>
  C8, as the code has it.  After \<open>destroyImpl\<close>, and as long as \<open>initImpl\<close> is not
  called again, every \<open>acquireConnectionImpl\<close> fails with the \<^verbatim>\<open>TypeError\<close> of reading
  \<^verbatim>\<open>connect\<close> from the null pool field, and changes nothing: the pool, the cache
  and the hook are not reached.
\<close>

theorem acquire_after_destroy_fails:
  assumes no_init: "list_all (\<lambda>ev. \<not> is_Init ev) evs"
  shows "acquireConnectionImpl cfg connect_reply (snd (run cfg evs (snd (destroyImpl end_reply w)))) =
           (Inl null_pool_error, snd (run cfg evs (snd (destroyImpl end_reply w))))
     \<and> err_name null_pool_error = ''TypeError''"
proof -
  from no_init have no_init: "\<forall>ev\<in>set evs. \<not> is_Init ev"
    by (simp add: list_all_iff)
  have "pool (snd (run cfg evs (snd (destroyImpl end_reply w)))) = None"
    using destroy_clears_pool no_init by (rule run_keeps_null_pool)
  then show ?thesis
    by (simp add: acquire_no_pool null_pool_error_def)
qed

text \<open>
  An instance: initialise, destroy, destroy again, a failed acquisition, then the
  acquisition in question.
\<close>

theorem acquire_after_destroy_fails_witness:
  "list_all (\<lambda>ev. \<not> is_Init ev) [Destroy (Fulfilled ()), Acquire (Fulfilled 7)]
   \<and> acquireConnectionImpl example_config (Fulfilled 7)
        (snd (run example_config [Destroy (Fulfilled ()), Acquire (Fulfilled 7)]
           (snd (destroyImpl (Fulfilled ()) (snd (initImpl example_config PgResolved new_driver))))))
     = (Inl null_pool_error,
        snd (run example_config [Destroy (Fulfilled ()), Acquire (Fulfilled 7)]
           (snd (destroyImpl (Fulfilled ()) (snd (initImpl example_config PgResolved new_driver))))))"
proof -
  have h: "list_all (\<lambda>ev. \<not> is_Init ev) [Destroy (Fulfilled ()), Acquire (Fulfilled 7)]"
    by simp
  from acquire_after_destroy_fails [OF h, of example_config "Fulfilled 7" "Fulfilled ()"
      "snd (initImpl example_config PgResolved new_driver)"] h
  show ?thesis by blast
qed

text \<open>
  C3.  With the module \<^verbatim>\<open>pg\<close> missing, the promise of the import is rejected with the
  module loader's error.  \<open>importPg\<close> hands that rejection on, and \<open>initImpl\<close> fails
  with the loader's error and not with the error of the \<^verbatim>\<open>catch\<close> clause
  (\<open>missing_pg_error\<close>); the driver is left as it was.
\<close>

theorem init_pg_missing_native_error:
  "importPg (PgUnresolved (JsError ''Error'' ''Cannot find module pg'' None))
     = Rejected (JsError ''Error'' ''Cannot find module pg'' None)
   \<and> initImpl example_config (PgUnresolved (JsError ''Error'' ''Cannot find module pg'' None)) new_driver
     = (Inl (JsError ''Error'' ''Cannot find module pg'' None), new_driver)
   \<and> JsError ''Error'' ''Cannot find module pg'' None \<noteq> missing_pg_error"
  by (simp add: initImpl_def importPg_def dynamic_import_def missing_pg_error_def)

section \<open>Query execution\<close>

text \<open>
  C2.  When the backend answers a query with a result, \<open>executeQuery\<close> returns a
  \<^verbatim>\<open>QueryResult\<close> whose \<open>numUpdatedOrDeletedRows\<close> is the backend's row count exactly
  when the backend's command is \<^verbatim>\<open>UPDATE\<close> or \<^verbatim>\<open>DELETE\<close> and is undefined for every
  other command, whose \<open>insertedPrimaryKey\<close> is undefined, and whose \<open>rows\<close> are the
  backend's rows in the backend's order.
\<close>

theorem executeQuery_result_shape:
  "\<exists>res. executeQuery (Fulfilled result) this compiledQuery w =
            (Inr res, w\<lparr>queries_sent := queries_sent w @
                          [(client this, sql compiledQuery, bindings compiledQuery)]\<rparr>)
     \<and> (numUpdatedOrDeletedRows res = Some (pg_rowCount result)
          \<longleftrightarrow> pg_command result = ''UPDATE'' \<or> pg_command result = ''DELETE'')
     \<and> (pg_command result \<noteq> ''UPDATE'' \<and> pg_command result \<noteq> ''DELETE''
          \<longrightarrow> numUpdatedOrDeletedRows res = None)
     \<and> insertedPrimaryKey res = None
     \<and> rows res = pg_rows result"
  by (simp add: executeQuery_def freeze_def spread_id Let_def)

text \<open>
  An instance: a \<^verbatim>\<open>SELECT\<close> that yields two rows.
\<close>

theorem executeQuery_result_shape_witness:
  "''SELECT'' \<noteq> ''UPDATE'' \<and> ''SELECT'' \<noteq> ''DELETE''
   \<and> (\<exists>res. fst (executeQuery
          (Fulfilled \<lparr>pg_command = ''SELECT'', pg_rowCount = 2,
                      pg_rows = [[(''id'', JsNumber 1)], [(''id'', JsNumber 2)]]\<rparr>)
          \<lparr>conn_ref = 0, client = 0\<rparr>
          \<lparr>sql = ''select id from person'', bindings = []\<rparr> new_driver) = Inr res
        \<and> numUpdatedOrDeletedRows res = None
        \<and> rows res = [[(''id'', JsNumber 1)], [(''id'', JsNumber 2)]])"
  using executeQuery_result_shape [of
      "\<lparr>pg_command = ''SELECT'', pg_rowCount = 2,
        pg_rows = [[(''id'', JsNumber 1)], [(''id'', JsNumber 2)]]\<rparr>"
      "\<lparr>conn_ref = 0, client = 0\<rparr>"
      "\<lparr>sql = ''select id from person'', bindings = []\<rparr>" new_driver]
  by auto

text \<open>
  A query that the backend rejects for a violated constraint: \<open>executeQuery\<close> fails with
  the backend's own error object, which is not a \<^verbatim>\<open>QueryExecutionError\<close> and wraps
  nothing.
\<close>

theorem executeQuery_error_counterexample:
  "fst (executeQuery
          (Rejected (JsError ''error'' ''duplicate key value violates unique constraint'' None))
          \<lparr>conn_ref = 0, client = 0\<rparr>
          \<lparr>sql = ''insert into person (id) values ($1)'', bindings = [JsNumber 1]\<rparr>
          new_driver)
     = Inl (JsError ''error'' ''duplicate key value violates unique constraint'' None)
   \<and> err_name (JsError ''error'' ''duplicate key value violates unique constraint'' None)
       \<noteq> ''QueryExecutionError''
   \<and> err_cause (JsError ''error'' ''duplicate key value violates unique constraint'' None) = None"
  by (simp add: executeQuery_def Let_def)

text \<open>
  C4, as the code has it.  When the backend rejects a query, \<open>executeQuery\<close> fails
  with the backend's error itself, unchanged and unwrapped; the query was sent once.
\<close>

theorem executeQuery_rejects_with_native_error:
  "executeQuery (Rejected e) this compiledQuery w =
     (Inl e, w\<lparr>queries_sent := queries_sent w @
                  [(client this, sql compiledQuery, bindings compiledQuery)]\<rparr>)"
  by (simp add: executeQuery_def spread_id Let_def)

text \<open>
  C5.  The object \<open>executeQuery\<close> returns is frozen: every write to one of its fields
  fails, and after any sequence of attempted writes its fields are what they were.
  This covers writes to the result object, under the behaviour taken for \<open>freeze\<close>.
\<close>

theorem executeQuery_result_frozen:
  "\<exists>res. fst (executeQuery (Fulfilled result) this compiledQuery w) = Inr res
     \<and> write_field wr res = Inl frozen_write_error
     \<and> writes_applied wrs res = res"
  by (simp add: executeQuery_def freeze_def Let_def writes_applied_frozen)

text \<open>
  C9.  Whatever the backend answers, \<open>executeQuery\<close> makes one call of
  \<^verbatim>\<open>client.query\<close>, with the statement text and with the bindings of the compiled
  query in their order, none missing and none repeated.
\<close>

theorem executeQuery_sends_bindings_in_order:
  "queries_sent (snd (executeQuery reply this compiledQuery w)) =
     queries_sent w @ [(client this, sql compiledQuery, bindings compiledQuery)]"
  by (cases reply) (simp_all add: executeQuery_def spread_id Let_def)

end
